theory Spec2Isabelle
  imports Complex_Main
begin

section \<open>Numbers, points and landmark frames\<close>

text \<open>
  The rule files compute with JavaScript numbers. Coordinates and visibilities delivered
  by the pose estimator are finite; they are modelled as \<^typ>\<open>real\<close>, so rounding and
  overflow of IEEE doubles are idealised away. What is kept is the one non-numeric value
  the code can produce from finite input and compare against thresholds: \<open>NaN\<close>
  (from \<open>0 / 0\<close> and from \<open>Math.acos\<close> outside \<open>[-1, 1]\<close>). Every comparison
  with \<open>NaN\<close> is false, and \<open>NaN\<close> is falsy.
\<close>

datatype number = Num real | NaN

text \<open>\<open>a > b\<close> and \<open>a < b\<close> on numbers.\<close>

fun js_gt :: "number \<Rightarrow> number \<Rightarrow> bool" where
  "js_gt (Num a) (Num b) = (a > b)"
| "js_gt _ _ = False"

fun js_lt :: "number \<Rightarrow> number \<Rightarrow> bool" where
  "js_lt (Num a) (Num b) = (a < b)"
| "js_lt _ _ = False"

text \<open>\<open>a + b\<close> and \<open>a / d\<close> for a non-zero constant \<open>d\<close>.\<close>

fun js_add :: "number \<Rightarrow> number \<Rightarrow> number" where
  "js_add (Num a) (Num b) = Num (a + b)"
| "js_add _ _ = NaN"

fun js_div_const :: "number \<Rightarrow> real \<Rightarrow> number" where
  "js_div_const (Num a) d = Num (a / d)"
| "js_div_const NaN d = NaN"

text \<open>
  A value that is \<open>null\<close> or a number is a \<^typ>\<open>number option\<close>. \<open>v || d\<close> yields
  \<open>d\<close> when \<open>v\<close> is falsy (\<open>null\<close>, \<open>0\<close> or \<open>NaN\<close>); a relational operator
  converts \<open>null\<close> to \<open>0\<close>.
\<close>

fun js_or :: "number option \<Rightarrow> real \<Rightarrow> number" where
  "js_or None d = Num d"
| "js_or (Some NaN) d = Num d"
| "js_or (Some (Num v)) d = (if v = 0 then Num d else Num v)"

fun to_number :: "number option \<Rightarrow> number" where
  "to_number None = Num 0"
| "to_number (Some v) = v"

text \<open>
  \<open>Math.atan2\<close> and \<open>Math.acos\<close> on ideal reals. \<open>Math.atan2(0, 0)\<close> is \<open>0\<close>;
  \<open>Math.acos\<close> is \<open>NaN\<close> outside \<open>[-1, 1]\<close>.
\<close>

definition Math_atan2 :: "real \<Rightarrow> real \<Rightarrow> real" where
  "Math_atan2 v u =
     (if u > 0 then arctan (v / u)
      else if u < 0 then (if v \<ge> 0 then arctan (v / u) + pi else arctan (v / u) - pi)
      else if v > 0 then pi / 2
      else if v < 0 then - (pi / 2)
      else 0)"

definition Math_acos :: "real \<Rightarrow> number" where
  "Math_acos q = (if - 1 \<le> q \<and> q \<le> 1 then Num (arccos q) else NaN)"

text \<open>
  An object with fields \<open>x\<close>, \<open>y\<close>, \<open>z\<close>; a landmark has a \<open>visibility\<close> as well.
  The geometry functions read only the coordinates, so they accept either.
\<close>

record xyz =
  px :: real
  py :: real
  pz :: real

record landmark = xyz +
  visibility :: real

text \<open>
  A frame is \<open>null\<close>/\<open>undefined\<close> (\<open>None\<close>) or an array of landmarks. Reading an
  array beyond its length gives \<open>undefined\<close>.
\<close>

type_synonym frame = "landmark list option"

definition at_index :: "'a list \<Rightarrow> nat \<Rightarrow> 'a option" where
  "at_index xs i = (if i < length xs then Some (xs ! i) else None)"

section \<open>poseUtils.js\<close>

definition calculateAngle :: "'a xyz_scheme \<Rightarrow> 'b xyz_scheme \<Rightarrow> 'c xyz_scheme \<Rightarrow> real" where
  "calculateAngle a b c =
     (let radians = Math_atan2 (py c - py b) (px c - px b) - Math_atan2 (py a - py b) (px a - px b);
          angle = \<bar>radians * 180 / pi\<bar>
      in if angle > 180 then 360 - angle else angle)"

text \<open>
  In \<open>calculate3DAngle\<close> the quotient \<open>dotProduct / (magnitudeBA * magnitudeBC)\<close> has a
  zero denominator only when one of the two vectors is zero; the dot product is then
  \<open>0\<close> as well (lemma \<open>dotProduct_degenerate\<close> below), so the quotient is \<open>0 / 0\<close>,
  which is \<open>NaN\<close>, and \<open>NaN\<close> propagates through \<open>Math.acos\<close> and the conversion
  to degrees.
\<close>

definition calculate3DAngle :: "'a xyz_scheme \<Rightarrow> 'b xyz_scheme \<Rightarrow> 'c xyz_scheme \<Rightarrow> number" where
  "calculate3DAngle a b c =
     (let vectorBA = \<lparr>px = px a - px b, py = py a - py b, pz = pz a - pz b\<rparr>;
          vectorBC = \<lparr>px = px c - px b, py = py c - py b, pz = pz c - pz b\<rparr>;
          dotProduct = px vectorBA * px vectorBC + py vectorBA * py vectorBC + pz vectorBA * pz vectorBC;
          magnitudeBA = sqrt (px vectorBA * px vectorBA + py vectorBA * py vectorBA + pz vectorBA * pz vectorBA);
          magnitudeBC = sqrt (px vectorBC * px vectorBC + py vectorBC * py vectorBC + pz vectorBC * pz vectorBC)
      in if magnitudeBA * magnitudeBC = 0 then NaN
         else (case Math_acos (dotProduct / (magnitudeBA * magnitudeBC)) of
                 NaN \<Rightarrow> NaN
               | Num angle \<Rightarrow> Num (angle * 180 / pi)))"

text \<open>
  \<open>isPointVisible\<close> returns \<open>point && point.visibility > minConfidence\<close>; every caller
  uses the result as a condition, so it is modelled by its truthiness. The default
  \<open>minConfidence = 0.5\<close> is passed explicitly.
\<close>

definition default_minConfidence :: real where
  "default_minConfidence = 0.5"

definition isPointVisible :: "landmark option \<Rightarrow> real \<Rightarrow> bool" where
  "isPointVisible point minConfidence =
     (case point of None \<Rightarrow> False | Some p \<Rightarrow> visibility p > minConfidence)"

definition landmarkIndices :: "(string \<times> nat) list" where
  "landmarkIndices =
     [(''nose'', 0), (''leftEye'', 1), (''rightEye'', 2), (''leftEar'', 3), (''rightEar'', 4),
      (''leftShoulder'', 5), (''rightShoulder'', 6), (''leftElbow'', 7), (''rightElbow'', 8),
      (''leftWrist'', 9), (''rightWrist'', 10), (''leftHip'', 11), (''rightHip'', 12),
      (''leftKnee'', 13), (''rightKnee'', 14), (''leftAnkle'', 15), (''rightAnkle'', 16)]"

text \<open>
  \<open>getNamedLandmarks\<close> returns \<open>null\<close> for an absent or empty frame, and otherwise the
  object that maps every name of \<open>landmarkIndices\<close> to \<open>landmarks[index]\<close>.
\<close>

definition getNamedLandmarks :: "frame \<Rightarrow> (string \<rightharpoonup> landmark) option" where
  "getNamedLandmarks landmarks =
     (case landmarks of
        None \<Rightarrow> None
      | Some ls \<Rightarrow>
          if length ls = 0 then None
          else Some (\<lambda>name. case map_of landmarkIndices name of
                               None \<Rightarrow> None
                             | Some index \<Rightarrow> at_index ls index))"

section \<open>squatRules.js and pushupRules.js: the phase classifiers\<close>

definition STANDING :: string where "STANDING = ''standing''"
definition TOP :: string where "TOP = ''top''"
definition DESCENDING :: string where "DESCENDING = ''descending''"
definition BOTTOM :: string where "BOTTOM = ''bottom''"
definition ASCENDING :: string where "ASCENDING = ''ascending''"

text \<open>
  The classifiers return \<open>{phase, hipHeight}\<close> and \<open>{phase, elbowAngle}\<close>: the phase
  and the tracked metric, which is \<open>null\<close> or a number.
\<close>

record phase_result =
  phase :: string
  tracked :: "number option"

definition determineSquatPhase :: "frame \<Rightarrow> string \<Rightarrow> number option \<Rightarrow> phase_result" where
  "determineSquatPhase landmarks prevPhase prevHipHeight =
     (case getNamedLandmarks landmarks of
        None \<Rightarrow> \<lparr>phase = prevPhase, tracked = prevHipHeight\<rparr>
      | Some namedLandmarks \<Rightarrow>
          if \<not> isPointVisible (namedLandmarks ''leftHip'') default_minConfidence
             \<or> \<not> isPointVisible (namedLandmarks ''rightHip'') default_minConfidence
             \<or> \<not> isPointVisible (namedLandmarks ''leftKnee'') default_minConfidence
             \<or> \<not> isPointVisible (namedLandmarks ''rightKnee'') default_minConfidence
             \<or> \<not> isPointVisible (namedLandmarks ''leftAnkle'') default_minConfidence
             \<or> \<not> isPointVisible (namedLandmarks ''rightAnkle'') default_minConfidence
          then \<lparr>phase = prevPhase, tracked = prevHipHeight\<rparr>
          else
            (let leftHip = the (namedLandmarks ''leftHip'');
                 rightHip = the (namedLandmarks ''rightHip'');
                 leftKnee = the (namedLandmarks ''leftKnee'');
                 rightKnee = the (namedLandmarks ''rightKnee'');
                 leftAnkle = the (namedLandmarks ''leftAnkle'');
                 rightAnkle = the (namedLandmarks ''rightAnkle'');
                 hipHeight = Num ((py leftHip + py rightHip) / 2);
                 leftKneeAngle = calculate3DAngle leftHip leftKnee leftAnkle;
                 rightKneeAngle = calculate3DAngle rightHip rightKnee rightAnkle;
                 avgKneeAngle = js_div_const (js_add leftKneeAngle rightKneeAngle) 2;
                 phase1 =
                   (if js_gt avgKneeAngle (Num 160) then STANDING
                    else if js_lt avgKneeAngle (Num 110) \<and> js_gt hipHeight (js_or prevHipHeight 0)
                    then DESCENDING
                    else if js_lt avgKneeAngle (Num 110) \<and> js_lt hipHeight (js_or prevHipHeight 1)
                    then ASCENDING
                    else prevPhase);
                 phase2 =
                   (if phase1 = DESCENDING \<and> prevPhase = DESCENDING
                       \<and> js_lt hipHeight (js_or prevHipHeight 1)
                    then BOTTOM else phase1)
             in \<lparr>phase = phase2, tracked = Some hipHeight\<rparr>))"

definition determinePushupPhase :: "frame \<Rightarrow> string \<Rightarrow> number option \<Rightarrow> phase_result" where
  "determinePushupPhase landmarks prevPhase prevElbowAngle =
     (case getNamedLandmarks landmarks of
        None \<Rightarrow> \<lparr>phase = prevPhase, tracked = prevElbowAngle\<rparr>
      | Some namedLandmarks \<Rightarrow>
          if \<not> isPointVisible (namedLandmarks ''leftShoulder'') default_minConfidence
             \<or> \<not> isPointVisible (namedLandmarks ''rightShoulder'') default_minConfidence
             \<or> \<not> isPointVisible (namedLandmarks ''leftElbow'') default_minConfidence
             \<or> \<not> isPointVisible (namedLandmarks ''rightElbow'') default_minConfidence
             \<or> \<not> isPointVisible (namedLandmarks ''leftWrist'') default_minConfidence
             \<or> \<not> isPointVisible (namedLandmarks ''rightWrist'') default_minConfidence
          then \<lparr>phase = prevPhase, tracked = prevElbowAngle\<rparr>
          else
            (let leftShoulder = the (namedLandmarks ''leftShoulder'');
                 rightShoulder = the (namedLandmarks ''rightShoulder'');
                 leftElbow = the (namedLandmarks ''leftElbow'');
                 rightElbow = the (namedLandmarks ''rightElbow'');
                 leftWrist = the (namedLandmarks ''leftWrist'');
                 rightWrist = the (namedLandmarks ''rightWrist'');
                 leftElbowAngle = calculate3DAngle leftShoulder leftElbow leftWrist;
                 rightElbowAngle = calculate3DAngle rightShoulder rightElbow rightWrist;
                 avgElbowAngle = js_div_const (js_add leftElbowAngle rightElbowAngle) 2;
                 phase1 =
                   (if js_gt avgElbowAngle (Num 150) then TOP
                    else if js_lt avgElbowAngle (Num 120)
                            \<and> (prevElbowAngle = None \<or> js_lt avgElbowAngle (to_number prevElbowAngle))
                    then DESCENDING
                    else if js_lt avgElbowAngle (Num 120) \<and> js_gt avgElbowAngle (to_number prevElbowAngle)
                    then ASCENDING
                    else prevPhase);
                 phase2 =
                   (if phase1 = DESCENDING \<and> prevPhase = DESCENDING
                       \<and> js_gt avgElbowAngle (to_number prevElbowAngle)
                    then BOTTOM else phase1)
             in \<lparr>phase = phase2, tracked = Some avgElbowAngle\<rparr>))"

section \<open>squatRules.js and pushupRules.js: the form evaluators\<close>

text \<open>The two \<open>THRESHOLDS\<close> tables (the entries the evaluators read).\<close>

definition MIN_KNEE_ANGLE :: real where "MIN_KNEE_ANGLE = 70"
definition MAX_KNEE_ANGLE :: real where "MAX_KNEE_ANGLE = 100"
definition MIN_HIP_ANGLE :: real where "MIN_HIP_ANGLE = 70"
definition MAX_HIP_ANGLE :: real where "MAX_HIP_ANGLE = 110"
definition MAX_BACK_LEAN :: real where "MAX_BACK_LEAN = 45"
definition MAX_KNEE_FORWARD :: real where "MAX_KNEE_FORWARD = 0.1"
definition MAX_KNEE_INWARD :: real where "MAX_KNEE_INWARD = 0.1"
definition MIN_ELBOW_ANGLE :: real where "MIN_ELBOW_ANGLE = 70"
definition MAX_ELBOW_ANGLE :: real where "MAX_ELBOW_ANGLE = 100"
definition MIN_TOP_ELBOW_ANGLE :: real where "MIN_TOP_ELBOW_ANGLE = 150"
definition MAX_BACK_SAG :: real where "MAX_BACK_SAG = 15"
definition MAX_BACK_PIKE :: real where "MAX_BACK_PIKE = 15"
definition MAX_NECK_ANGLE :: real where "MAX_NECK_ANGLE = 30"
definition CONFIDENCE_THRESHOLD :: real where "CONFIDENCE_THRESHOLD = 0.5"

text \<open>
  The result object \<open>{isCorrect, issues, angles}\<close>; the short-circuit results have no
  \<open>angles\<close> field (\<open>None\<close>). \<open>angles\<close> lists its entries in the order they are written.
\<close>

record evaluation =
  isCorrect :: bool
  issues :: "string list"
  angles :: "(string \<times> number) list option"

text \<open>\<open>if (cond) { issues.push(msg); }\<close>\<close>

definition push_if :: "bool \<Rightarrow> string \<Rightarrow> string list \<Rightarrow> string list" where
  "push_if cond msg issues0 = (if cond then issues0 @ [msg] else issues0)"

definition evaluateSquatForm :: "frame \<Rightarrow> string \<Rightarrow> evaluation" where
  "evaluateSquatForm landmarks phase0 =
     (case getNamedLandmarks landmarks of
        None \<Rightarrow> \<lparr>isCorrect = False, issues = [''No landmarks detected''], angles = None\<rparr>
      | Some namedLandmarks \<Rightarrow>
          (let requiredLandmarks =
                 [namedLandmarks ''leftShoulder'', namedLandmarks ''rightShoulder'',
                  namedLandmarks ''leftHip'', namedLandmarks ''rightHip'',
                  namedLandmarks ''leftKnee'', namedLandmarks ''rightKnee'',
                  namedLandmarks ''leftAnkle'', namedLandmarks ''rightAnkle'']
           in if list_ex (\<lambda>landmark. \<not> isPointVisible landmark CONFIDENCE_THRESHOLD) requiredLandmarks
              then \<lparr>isCorrect = False, issues = [''Some key landmarks not visible''], angles = None\<rparr>
              else
                (let leftShoulder = the (namedLandmarks ''leftShoulder'');
                     rightShoulder = the (namedLandmarks ''rightShoulder'');
                     leftHip = the (namedLandmarks ''leftHip'');
                     rightHip = the (namedLandmarks ''rightHip'');
                     leftKnee = the (namedLandmarks ''leftKnee'');
                     rightKnee = the (namedLandmarks ''rightKnee'');
                     leftAnkle = the (namedLandmarks ''leftAnkle'');
                     rightAnkle = the (namedLandmarks ''rightAnkle'');
                     leftKneeAngle = calculate3DAngle leftHip leftKnee leftAnkle;
                     rightKneeAngle = calculate3DAngle rightHip rightKnee rightAnkle;
                     leftHipAngle = calculate3DAngle leftShoulder leftHip leftKnee;
                     rightHipAngle = calculate3DAngle rightShoulder rightHip rightKnee;
                     midShoulder = \<lparr>px = (px leftShoulder + px rightShoulder) / 2,
                                    py = (py leftShoulder + py rightShoulder) / 2,
                                    pz = (pz leftShoulder + pz rightShoulder) / 2\<rparr>;
                     midHip = \<lparr>px = (px leftHip + px rightHip) / 2,
                               py = (py leftHip + py rightHip) / 2,
                               pz = (pz leftHip + pz rightHip) / 2\<rparr>;
                     verticalRef = \<lparr>px = px midHip, py = 0, pz = pz midHip\<rparr>;
                     backAngle = calculateAngle verticalRef midHip midShoulder;
                     kneesNotAligned =
                       (\<bar>px leftKnee - px leftAnkle\<bar> > MAX_KNEE_INWARD
                        \<or> \<bar>px rightKnee - px rightAnkle\<bar> > MAX_KNEE_INWARD);
                     issues1 =
                       (if phase0 = BOTTOM then
                          push_if kneesNotAligned ''Knees not aligned with toes''
                         (push_if (pz leftKnee < pz leftAnkle - MAX_KNEE_FORWARD
                                   \<or> pz rightKnee < pz rightAnkle - MAX_KNEE_FORWARD)
                            ''Knees too far forward of toes''
                         (push_if (backAngle > MAX_BACK_LEAN) ''Back leaning too far forward''
                         (push_if (js_lt leftHipAngle (Num MIN_HIP_ANGLE) \<or> js_lt rightHipAngle (Num MIN_HIP_ANGLE))
                            ''Hips bent too much''
                         (push_if (js_gt leftHipAngle (Num MAX_HIP_ANGLE) \<or> js_gt rightHipAngle (Num MAX_HIP_ANGLE))
                            ''Hips not bent enough''
                         (push_if (js_lt leftKneeAngle (Num MIN_KNEE_ANGLE) \<or> js_lt rightKneeAngle (Num MIN_KNEE_ANGLE))
                            ''Knees bent too much''
                         (push_if (js_gt leftKneeAngle (Num MAX_KNEE_ANGLE) \<or> js_gt rightKneeAngle (Num MAX_KNEE_ANGLE))
                            ''Knees not bent enough'' []))))))
                        else if phase0 = DESCENDING \<or> phase0 = ASCENDING then
                          push_if kneesNotAligned ''Knees not aligned with toes''
                         (push_if (backAngle > MAX_BACK_LEAN) ''Back leaning too far forward'' [])
                        else if phase0 = STANDING then
                          push_if (backAngle > 20) ''Not standing upright between reps''
                         (push_if (js_lt leftKneeAngle (Num 160) \<or> js_lt rightKneeAngle (Num 160))
                            ''Not fully standing between reps'' [])
                        else [])
                 in \<lparr>isCorrect = (length issues1 = 0),
                     issues = issues1,
                     angles = Some [(''leftKnee'', leftKneeAngle), (''rightKnee'', rightKneeAngle),
                                    (''leftHip'', leftHipAngle), (''rightHip'', rightHipAngle),
                                    (''back'', Num backAngle)]\<rparr>)))"

text \<open>
  \<open>evaluatePushupForm\<close> also reads \<open>nose\<close>, \<open>leftEye\<close> and \<open>rightEye\<close>, which are
  not among its required landmarks. They sit at indices 0 to 2, so they are present in
  every array that holds the required landmarks (the highest of which is index 12).
\<close>

definition evaluatePushupForm :: "frame \<Rightarrow> string \<Rightarrow> evaluation" where
  "evaluatePushupForm landmarks phase0 =
     (case getNamedLandmarks landmarks of
        None \<Rightarrow> \<lparr>isCorrect = False, issues = [''No landmarks detected''], angles = None\<rparr>
      | Some namedLandmarks \<Rightarrow>
          (let requiredLandmarks =
                 [namedLandmarks ''leftShoulder'', namedLandmarks ''rightShoulder'',
                  namedLandmarks ''leftElbow'', namedLandmarks ''rightElbow'',
                  namedLandmarks ''leftWrist'', namedLandmarks ''rightWrist'',
                  namedLandmarks ''leftHip'', namedLandmarks ''rightHip'']
           in if list_ex (\<lambda>landmark. \<not> isPointVisible landmark CONFIDENCE_THRESHOLD) requiredLandmarks
              then \<lparr>isCorrect = False, issues = [''Some key landmarks not visible''], angles = None\<rparr>
              else
                (let nose = the (namedLandmarks ''nose'');
                     leftEye = the (namedLandmarks ''leftEye'');
                     rightEye = the (namedLandmarks ''rightEye'');
                     leftShoulder = the (namedLandmarks ''leftShoulder'');
                     rightShoulder = the (namedLandmarks ''rightShoulder'');
                     leftElbow = the (namedLandmarks ''leftElbow'');
                     rightElbow = the (namedLandmarks ''rightElbow'');
                     leftWrist = the (namedLandmarks ''leftWrist'');
                     rightWrist = the (namedLandmarks ''rightWrist'');
                     leftHip = the (namedLandmarks ''leftHip'');
                     rightHip = the (namedLandmarks ''rightHip'');
                     leftElbowAngle = calculate3DAngle leftShoulder leftElbow leftWrist;
                     rightElbowAngle = calculate3DAngle rightShoulder rightElbow rightWrist;
                     midShoulder = \<lparr>px = (px leftShoulder + px rightShoulder) / 2,
                                    py = (py leftShoulder + py rightShoulder) / 2,
                                    pz = (pz leftShoulder + pz rightShoulder) / 2\<rparr>;
                     midHip = \<lparr>px = (px leftHip + px rightHip) / 2,
                               py = (py leftHip + py rightHip) / 2,
                               pz = (pz leftHip + pz rightHip) / 2\<rparr>;
                     horizontalRef = \<lparr>px = px midShoulder + 1, py = py midShoulder, pz = pz midShoulder\<rparr>;
                     backAngle = calculateAngle horizontalRef midShoulder midHip;
                     midEye = \<lparr>px = (px leftEye + px rightEye) / 2,
                               py = (py leftEye + py rightEye) / 2,
                               pz = (pz leftEye + pz rightEye) / 2\<rparr>;
                     neckAngle = calculateAngle midShoulder nose midEye;
                     backIssues =
                       (\<lambda>issues0. if backAngle > MAX_BACK_SAG then issues0 @ [''Back sagging too much'']
                                  else if backAngle < - MAX_BACK_PIKE then issues0 @ [''Hips too high (piking)'']
                                  else issues0);
                     issues1 =
                       (if phase0 = BOTTOM then
                          push_if (\<bar>neckAngle\<bar> > MAX_NECK_ANGLE) ''Neck not in neutral position''
                         (backIssues
                         (push_if (js_lt leftElbowAngle (Num MIN_ELBOW_ANGLE) \<or> js_lt rightElbowAngle (Num MIN_ELBOW_ANGLE))
                            ''Elbows bent too much''
                         (push_if (js_gt leftElbowAngle (Num MAX_ELBOW_ANGLE) \<or> js_gt rightElbowAngle (Num MAX_ELBOW_ANGLE))
                            ''Not going deep enough'' [])))
                        else if phase0 = TOP then
                          backIssues
                         (push_if (js_lt leftElbowAngle (Num MIN_TOP_ELBOW_ANGLE)
                                   \<or> js_lt rightElbowAngle (Num MIN_TOP_ELBOW_ANGLE))
                            ''Arms not fully extended at top'' [])
                        else if phase0 = DESCENDING \<or> phase0 = ASCENDING then
                          push_if (\<bar>neckAngle\<bar> > MAX_NECK_ANGLE) ''Neck not in neutral position''
                         (backIssues [])
                        else [])
                 in \<lparr>isCorrect = (length issues1 = 0),
                     issues = issues1,
                     angles = Some [(''leftElbow'', leftElbowAngle), (''rightElbow'', rightElbowAngle),
                                    (''back'', Num backAngle), (''neck'', Num neckAngle)]\<rparr>)))"

section \<open>Vocabulary of the properties\<close>

text \<open>The landmark that \<open>getNamedLandmarks\<close> stores under a name, for a non-empty array.\<close>

definition landmark_of :: "landmark list \<Rightarrow> string \<Rightarrow> landmark option" where
  "landmark_of ls name =
     (case map_of landmarkIndices name of None \<Rightarrow> None | Some index \<Rightarrow> at_index ls index)"

text \<open>A landmark that is absent or whose visibility is at most \<open>0.5\<close>.\<close>

definition absent_or_low :: "landmark option \<Rightarrow> bool" where
  "absent_or_low point = (case point of None \<Rightarrow> True | Some p \<Rightarrow> visibility p \<le> 0.5)"

text \<open>The landmarks each function checks before it computes anything.\<close>

definition squat_phase_required :: "string list" where
  "squat_phase_required =
     [''leftHip'', ''rightHip'', ''leftKnee'', ''rightKnee'', ''leftAnkle'', ''rightAnkle'']"

definition pushup_phase_required :: "string list" where
  "pushup_phase_required =
     [''leftShoulder'', ''rightShoulder'', ''leftElbow'', ''rightElbow'', ''leftWrist'', ''rightWrist'']"

definition squat_form_required :: "string list" where
  "squat_form_required =
     [''leftShoulder'', ''rightShoulder'', ''leftHip'', ''rightHip'',
      ''leftKnee'', ''rightKnee'', ''leftAnkle'', ''rightAnkle'']"

definition pushup_form_required :: "string list" where
  "pushup_form_required =
     [''leftShoulder'', ''rightShoulder'', ''leftElbow'', ''rightElbow'',
      ''leftWrist'', ''rightWrist'', ''leftHip'', ''rightHip'']"

definition all_visible :: "landmark list \<Rightarrow> string list \<Rightarrow> bool" where
  "all_visible ls names = list_all (\<lambda>name. isPointVisible (landmark_of ls name) 0.5) names"

text \<open>
  The quantities the classifiers and the squat evaluator compute from a frame whose
  required landmarks are visible, under the names of the local constants that hold them.
\<close>

definition squat_hipHeight :: "landmark list \<Rightarrow> real" where
  "squat_hipHeight ls =
     (py (the (landmark_of ls ''leftHip'')) + py (the (landmark_of ls ''rightHip''))) / 2"

definition squat_leftKneeAngle :: "landmark list \<Rightarrow> number" where
  "squat_leftKneeAngle ls =
     calculate3DAngle (the (landmark_of ls ''leftHip'')) (the (landmark_of ls ''leftKnee''))
       (the (landmark_of ls ''leftAnkle''))"

definition squat_rightKneeAngle :: "landmark list \<Rightarrow> number" where
  "squat_rightKneeAngle ls =
     calculate3DAngle (the (landmark_of ls ''rightHip'')) (the (landmark_of ls ''rightKnee''))
       (the (landmark_of ls ''rightAnkle''))"

definition squat_avgKneeAngle :: "landmark list \<Rightarrow> number" where
  "squat_avgKneeAngle ls = js_div_const (js_add (squat_leftKneeAngle ls) (squat_rightKneeAngle ls)) 2"

definition pushup_avgElbowAngle :: "landmark list \<Rightarrow> number" where
  "pushup_avgElbowAngle ls =
     js_div_const
       (js_add
          (calculate3DAngle (the (landmark_of ls ''leftShoulder'')) (the (landmark_of ls ''leftElbow''))
             (the (landmark_of ls ''leftWrist'')))
          (calculate3DAngle (the (landmark_of ls ''rightShoulder'')) (the (landmark_of ls ''rightElbow''))
             (the (landmark_of ls ''rightWrist''))))
       2"

text \<open>
  Frames of 33 landmarks for the concrete instances; the functions read the first 17. In
  \<open>bent_frame \<theta> h\<close> every landmark has visibility \<open>0.9\<close>; both hips and both
  shoulders are at height \<open>h\<close>, both knees and both elbows one unit away from them,
  both ankles and both wrists one unit away from the knees, so that the angle at each
  knee and at each elbow is \<open>\<theta>\<close> radians; the face is above the shoulders. \<open>hidden_frame\<close> is the same pose with the left hip and the left
  shoulder at visibility exactly \<open>0.5\<close>.
\<close>

definition mk_landmark :: "real \<Rightarrow> real \<Rightarrow> real \<Rightarrow> real \<Rightarrow> landmark" where
  "mk_landmark x0 y0 z0 v = \<lparr>px = x0, py = y0, pz = z0, visibility = v\<rparr>"

definition bent_frame :: "real \<Rightarrow> real \<Rightarrow> landmark list" where
  "bent_frame \<theta> h =
     (let face = mk_landmark (cos \<theta>) (h - 1) 0 0.9;
          upper = mk_landmark (cos \<theta>) h 0 0.9;
          joint = mk_landmark 0 (h - sin \<theta>) 0 0.9;
          lower = mk_landmark 1 (h - sin \<theta>) 0 0.9
      in [face, face, face, face, face,
          upper, upper, joint, joint, lower, lower,
          upper, upper, joint, joint, lower, lower] @ replicate 16 lower)"

definition hidden_frame :: "landmark list" where
  "hidden_frame =
     (let face = mk_landmark 0 (- 1) 0 0.9;
          upper = mk_landmark 0 0 0 0.9;
          dim = mk_landmark 0 0 0 0.5;
          joint = mk_landmark 0 (- 1) 0 0.9;
          lower = mk_landmark 1 (- 1) 0 0.9
      in [face, face, face, face, face,
          dim, upper, joint, joint, lower, lower,
          dim, upper, joint, joint, lower, lower] @ replicate 16 lower)"

section \<open>Named landmarks\<close>

lemmas phase_defs = STANDING_def TOP_def DESCENDING_def BOTTOM_def ASCENDING_def

lemma getNamedLandmarks_Some: "ls \<noteq> [] \<Longrightarrow> getNamedLandmarks (Some ls) = Some (landmark_of ls)"
  by (auto simp: getNamedLandmarks_def landmark_of_def)

lemma getNamedLandmarks_empty: "getNamedLandmarks None = None" "getNamedLandmarks (Some []) = None"
  by (simp_all add: getNamedLandmarks_def)

lemma landmark_of_simps:
  "landmark_of ls ''nose'' = at_index ls 0"
  "landmark_of ls ''leftEye'' = at_index ls 1"
  "landmark_of ls ''rightEye'' = at_index ls 2"
  "landmark_of ls ''leftShoulder'' = at_index ls 5"
  "landmark_of ls ''rightShoulder'' = at_index ls 6"
  "landmark_of ls ''leftElbow'' = at_index ls 7"
  "landmark_of ls ''rightElbow'' = at_index ls 8"
  "landmark_of ls ''leftWrist'' = at_index ls 9"
  "landmark_of ls ''rightWrist'' = at_index ls 10"
  "landmark_of ls ''leftHip'' = at_index ls 11"
  "landmark_of ls ''rightHip'' = at_index ls 12"
  "landmark_of ls ''leftKnee'' = at_index ls 13"
  "landmark_of ls ''rightKnee'' = at_index ls 14"
  "landmark_of ls ''leftAnkle'' = at_index ls 15"
  "landmark_of ls ''rightAnkle'' = at_index ls 16"
  by (simp_all add: landmark_of_def landmarkIndices_def)

section \<open>The planar angle\<close>

lemma Math_atan2_bounds: "- pi \<le> Math_atan2 v u \<and> Math_atan2 v u \<le> pi"
proof -
  have b: "- (pi / 2) < arctan (v / u)" "arctan (v / u) < pi / 2"
    by (rule arctan_lbound, rule arctan_ubound)
  have neg: "u < 0 \<Longrightarrow> v \<ge> 0 \<Longrightarrow> arctan (v / u) \<le> 0"
    by (simp add: divide_nonneg_neg)
  have pos: "u < 0 \<Longrightarrow> v < 0 \<Longrightarrow> arctan (v / u) \<ge> 0"
    by (simp add: divide_neg_neg less_imp_le)
  show ?thesis
    using b neg pos pi_gt_zero unfolding Math_atan2_def by (auto simp: not_le)
qed

lemma calculateAngle_bounds: "0 \<le> calculateAngle a b c \<and> calculateAngle a b c \<le> 180"
proof -
  define r where "r = Math_atan2 (py c - py b) (px c - px b) - Math_atan2 (py a - py b) (px a - px b)"
  have "\<bar>r\<bar> \<le> 2 * pi"
    using Math_atan2_bounds[of "py c - py b" "px c - px b"] Math_atan2_bounds[of "py a - py b" "px a - px b"]
    unfolding r_def by linarith
  then have "\<bar>r\<bar> * 180 / pi \<le> 360"
    using pi_gt_zero by (simp add: field_simps)
  moreover have "\<bar>r * 180 / pi\<bar> = \<bar>r\<bar> * 180 / pi"
    using pi_gt_zero by (simp add: abs_mult)
  ultimately have "\<bar>r * 180 / pi\<bar> \<le> 360" by simp
  then show ?thesis
    unfolding calculateAngle_def r_def[symmetric] Let_def by auto
qed

text \<open>
  The zero denominator in \<open>calculate3DAngle\<close>: when the product of the two magnitudes
  is \<open>0\<close>, so is the dot product, and the quotient is \<open>0 / 0\<close>.
\<close>

lemma dotProduct_degenerate:
  fixes a1 a2 a3 c1 c2 c3 :: real
  assumes "sqrt (a1 * a1 + a2 * a2 + a3 * a3) * sqrt (c1 * c1 + c2 * c2 + c3 * c3) = 0"
  shows "a1 * c1 + a2 * c2 + a3 * c3 = 0"
proof -
  have "a1 * a1 + a2 * a2 + a3 * a3 = 0 \<or> c1 * c1 + c2 * c2 + c3 * c3 = 0"
    using assms by simp
  then have "(a1 = 0 \<and> a2 = 0 \<and> a3 = 0) \<or> (c1 = 0 \<and> c2 = 0 \<and> c3 = 0)"
    by (auto simp: add_nonneg_eq_0_iff)
  then show ?thesis by auto
qed

text \<open>
  C5. For all points \<open>a\<close>, \<open>b\<close>, \<open>c\<close> with finite coordinates, \<open>calculateAngle a b c\<close>
  lies in the closed interval from 0 to 180 degrees. The side conditions \<open>a \<noteq> b\<close> and
  \<open>c \<noteq> b\<close> of the claim are not needed: \<open>Math.atan2(0, 0)\<close> is \<open>0\<close>, so the
  degenerate triples are covered as well.
\<close>

theorem calculateAngle_range:
  "calculateAngle a b c \<in> {0 .. 180}"
  using calculateAngle_bounds[of a b c] by simp

text \<open>
  C8. \<open>isPointVisible p t\<close> holds exactly when \<open>p\<close> exists and its visibility is
  strictly greater than \<open>t\<close> (also for the default threshold \<open>0.5\<close>); a point whose
  visibility equals the threshold is not visible.
\<close>

theorem isPointVisible_strict:
  "(isPointVisible p t \<longleftrightarrow> (\<exists>q. p = Some q \<and> visibility q > t))
   \<and> (isPointVisible p default_minConfidence \<longleftrightarrow> (\<exists>q. p = Some q \<and> visibility q > 0.5))
   \<and> \<not> isPointVisible (Some q0) (visibility q0)
   \<and> \<not> isPointVisible None t"
  by (cases p) (simp_all add: isPointVisible_def default_minConfidence_def)


section \<open>The phase classifiers\<close>

lemma all_visible_nonempty:
  "all_visible ls (name # names) \<Longrightarrow> ls \<noteq> []"
  by (auto simp: all_visible_def isPointVisible_def landmark_of_def at_index_def split: option.splits)

lemma all_visible_squat_phase:
  "all_visible ls squat_phase_required \<longleftrightarrow>
     isPointVisible (landmark_of ls ''leftHip'') default_minConfidence
     \<and> isPointVisible (landmark_of ls ''rightHip'') default_minConfidence
     \<and> isPointVisible (landmark_of ls ''leftKnee'') default_minConfidence
     \<and> isPointVisible (landmark_of ls ''rightKnee'') default_minConfidence
     \<and> isPointVisible (landmark_of ls ''leftAnkle'') default_minConfidence
     \<and> isPointVisible (landmark_of ls ''rightAnkle'') default_minConfidence"
  by (simp add: all_visible_def squat_phase_required_def default_minConfidence_def)

lemma all_visible_pushup_phase:
  "all_visible ls pushup_phase_required \<longleftrightarrow>
     isPointVisible (landmark_of ls ''leftShoulder'') default_minConfidence
     \<and> isPointVisible (landmark_of ls ''rightShoulder'') default_minConfidence
     \<and> isPointVisible (landmark_of ls ''leftElbow'') default_minConfidence
     \<and> isPointVisible (landmark_of ls ''rightElbow'') default_minConfidence
     \<and> isPointVisible (landmark_of ls ''leftWrist'') default_minConfidence
     \<and> isPointVisible (landmark_of ls ''rightWrist'') default_minConfidence"
  by (simp add: all_visible_def pushup_phase_required_def default_minConfidence_def)

text \<open>
  On a frame whose six required landmarks are visible, each classifier is a function of
  the previous state and of the quantities it computes from the frame.
\<close>

lemma determineSquatPhase_visible:
  assumes "all_visible ls squat_phase_required"
  shows "determineSquatPhase (Some ls) prevPhase prevHipHeight =
     (let hipHeight = Num (squat_hipHeight ls);
          avgKneeAngle = squat_avgKneeAngle ls;
          phase1 =
            (if js_gt avgKneeAngle (Num 160) then STANDING
             else if js_lt avgKneeAngle (Num 110) \<and> js_gt hipHeight (js_or prevHipHeight 0)
             then DESCENDING
             else if js_lt avgKneeAngle (Num 110) \<and> js_lt hipHeight (js_or prevHipHeight 1)
             then ASCENDING
             else prevPhase)
      in \<lparr>phase = (if phase1 = DESCENDING \<and> prevPhase = DESCENDING
                       \<and> js_lt hipHeight (js_or prevHipHeight 1)
                    then BOTTOM else phase1),
          tracked = Some hipHeight\<rparr>)"
proof -
  have ne: "ls \<noteq> []"
    using assms unfolding squat_phase_required_def by (rule all_visible_nonempty)
  show ?thesis
    using assms[unfolded all_visible_squat_phase]
    unfolding determineSquatPhase_def getNamedLandmarks_Some[OF ne]
    by (simp add: Let_def squat_hipHeight_def squat_avgKneeAngle_def squat_leftKneeAngle_def
        squat_rightKneeAngle_def)
qed

lemma determinePushupPhase_visible:
  assumes "all_visible ls pushup_phase_required"
  shows "determinePushupPhase (Some ls) prevPhase prevElbowAngle =
     (let avgElbowAngle = pushup_avgElbowAngle ls;
          phase1 =
            (if js_gt avgElbowAngle (Num 150) then TOP
             else if js_lt avgElbowAngle (Num 120)
                     \<and> (prevElbowAngle = None \<or> js_lt avgElbowAngle (to_number prevElbowAngle))
             then DESCENDING
             else if js_lt avgElbowAngle (Num 120) \<and> js_gt avgElbowAngle (to_number prevElbowAngle)
             then ASCENDING
             else prevPhase)
      in \<lparr>phase = (if phase1 = DESCENDING \<and> prevPhase = DESCENDING
                       \<and> js_gt avgElbowAngle (to_number prevElbowAngle)
                    then BOTTOM else phase1),
          tracked = Some avgElbowAngle\<rparr>)"
proof -
  have ne: "ls \<noteq> []"
    using assms unfolding pushup_phase_required_def by (rule all_visible_nonempty)
  show ?thesis
    using assms[unfolded all_visible_pushup_phase]
    unfolding determinePushupPhase_def getNamedLandmarks_Some[OF ne]
    by (simp add: Let_def pushup_avgElbowAngle_def)
qed

text \<open>Otherwise the frame is skipped: the previous state is returned as it came.\<close>

lemma determineSquatPhase_skip:
  assumes "\<not> all_visible ls squat_phase_required"
  shows "determineSquatPhase (Some ls) prevPhase prevHipHeight = \<lparr>phase = prevPhase, tracked = prevHipHeight\<rparr>"
proof (cases "ls = []")
  case True
  then show ?thesis by (simp add: determineSquatPhase_def getNamedLandmarks_empty)
next
  case False
  show ?thesis
    using assms[unfolded all_visible_squat_phase]
    unfolding determineSquatPhase_def getNamedLandmarks_Some[OF False]
    by auto
qed

lemma determinePushupPhase_skip:
  assumes "\<not> all_visible ls pushup_phase_required"
  shows "determinePushupPhase (Some ls) prevPhase prevElbowAngle = \<lparr>phase = prevPhase, tracked = prevElbowAngle\<rparr>"
proof (cases "ls = []")
  case True
  then show ?thesis by (simp add: determinePushupPhase_def getNamedLandmarks_empty)
next
  case False
  show ?thesis
    using assms[unfolded all_visible_pushup_phase]
    unfolding determinePushupPhase_def getNamedLandmarks_Some[OF False]
    by auto
qed

lemma determine_None:
  "determineSquatPhase None prevPhase prev = \<lparr>phase = prevPhase, tracked = prev\<rparr>"
  "determinePushupPhase None prevPhase prev = \<lparr>phase = prevPhase, tracked = prev\<rparr>"
  by (simp_all add: determineSquatPhase_def determinePushupPhase_def getNamedLandmarks_empty)

text \<open>
  C2. Whatever the frame, the previous phase and the previous metric: if
  \<open>determineSquatPhase\<close> or \<open>determinePushupPhase\<close> returns \<open>bottom\<close> and this
  differs from the previous phase, then the previous phase was \<open>descending\<close>.
\<close>

theorem bottom_only_after_descending:
  "(phase (determineSquatPhase landmarks prevPhase prevHipHeight) = BOTTOM
      \<and> phase (determineSquatPhase landmarks prevPhase prevHipHeight) \<noteq> prevPhase
      \<longrightarrow> prevPhase = DESCENDING)
   \<and> (phase (determinePushupPhase landmarks prevPhase prevElbowAngle) = BOTTOM
      \<and> phase (determinePushupPhase landmarks prevPhase prevElbowAngle) \<noteq> prevPhase
      \<longrightarrow> prevPhase = DESCENDING)"
proof (cases landmarks)
  case None
  then show ?thesis by (simp add: determine_None)
next
  case (Some ls)
  have s: "phase (determineSquatPhase (Some ls) prevPhase prevHipHeight) = BOTTOM
      \<and> phase (determineSquatPhase (Some ls) prevPhase prevHipHeight) \<noteq> prevPhase
      \<longrightarrow> prevPhase = DESCENDING"
  proof (cases "all_visible ls squat_phase_required")
    case True
    show ?thesis
      unfolding determineSquatPhase_visible[OF True] Let_def
      by (simp add: phase_defs split: if_splits)
  next
    case False
    show ?thesis unfolding determineSquatPhase_skip[OF False] by simp
  qed
  have p: "phase (determinePushupPhase (Some ls) prevPhase prevElbowAngle) = BOTTOM
      \<and> phase (determinePushupPhase (Some ls) prevPhase prevElbowAngle) \<noteq> prevPhase
      \<longrightarrow> prevPhase = DESCENDING"
  proof (cases "all_visible ls pushup_phase_required")
    case True
    show ?thesis
      unfolding determinePushupPhase_visible[OF True] Let_def
      by (simp add: phase_defs split: if_splits)
  next
    case False
    show ?thesis unfolding determinePushupPhase_skip[OF False] by simp
  qed
  show ?thesis using s p Some by simp
qed

section \<open>The concrete frames\<close>

lemma absent_or_low_iff: "absent_or_low point \<longleftrightarrow> \<not> isPointVisible point 0.5"
  by (auto simp: absent_or_low_def isPointVisible_def split: option.splits)

lemma some_absent_or_low_iff:
  "list_ex (\<lambda>name. absent_or_low (landmark_of ls name)) names \<longleftrightarrow> \<not> all_visible ls names"
  by (simp add: all_visible_def absent_or_low_iff list_ex_iff list_all_iff)

lemma frame_lengths: "length (bent_frame \<theta> h) = 33" "length hidden_frame = 33"
  by (simp_all add: bent_frame_def hidden_frame_def Let_def)

lemma bent_frame_nth:
  "at_index (bent_frame \<theta> h) 0 = Some (mk_landmark (cos \<theta>) (h - 1) 0 0.9)"
  "at_index (bent_frame \<theta> h) 1 = Some (mk_landmark (cos \<theta>) (h - 1) 0 0.9)"
  "at_index (bent_frame \<theta> h) 2 = Some (mk_landmark (cos \<theta>) (h - 1) 0 0.9)"
  "at_index (bent_frame \<theta> h) 5 = Some (mk_landmark (cos \<theta>) h 0 0.9)"
  "at_index (bent_frame \<theta> h) 6 = Some (mk_landmark (cos \<theta>) h 0 0.9)"
  "at_index (bent_frame \<theta> h) 7 = Some (mk_landmark 0 (h - sin \<theta>) 0 0.9)"
  "at_index (bent_frame \<theta> h) 8 = Some (mk_landmark 0 (h - sin \<theta>) 0 0.9)"
  "at_index (bent_frame \<theta> h) 9 = Some (mk_landmark 1 (h - sin \<theta>) 0 0.9)"
  "at_index (bent_frame \<theta> h) 10 = Some (mk_landmark 1 (h - sin \<theta>) 0 0.9)"
  "at_index (bent_frame \<theta> h) 11 = Some (mk_landmark (cos \<theta>) h 0 0.9)"
  "at_index (bent_frame \<theta> h) 12 = Some (mk_landmark (cos \<theta>) h 0 0.9)"
  "at_index (bent_frame \<theta> h) 13 = Some (mk_landmark 0 (h - sin \<theta>) 0 0.9)"
  "at_index (bent_frame \<theta> h) 14 = Some (mk_landmark 0 (h - sin \<theta>) 0 0.9)"
  "at_index (bent_frame \<theta> h) 15 = Some (mk_landmark 1 (h - sin \<theta>) 0 0.9)"
  "at_index (bent_frame \<theta> h) 16 = Some (mk_landmark 1 (h - sin \<theta>) 0 0.9)"
  by (simp_all add: bent_frame_def at_index_def Let_def nth_append)

lemma bent_frame_visible:
  "all_visible (bent_frame \<theta> h) squat_phase_required"
  "all_visible (bent_frame \<theta> h) pushup_phase_required"
  "all_visible (bent_frame \<theta> h) squat_form_required"
  "all_visible (bent_frame \<theta> h) pushup_form_required"
  by (simp_all add: all_visible_def squat_phase_required_def pushup_phase_required_def
      squat_form_required_def pushup_form_required_def landmark_of_simps bent_frame_nth
      isPointVisible_def mk_landmark_def)

lemma bent_angle:
  assumes "0 \<le> \<theta>" "\<theta> \<le> pi"
  shows "calculate3DAngle (mk_landmark (cos \<theta>) h 0 v1) (mk_landmark 0 (h - sin \<theta>) 0 v2)
           (mk_landmark 1 (h - sin \<theta>) 0 v3) = Num (\<theta> * 180 / pi)"
proof -
  have m: "sqrt (cos \<theta> * cos \<theta> + sin \<theta> * sin \<theta>) = 1"
    using sin_cos_squared_add2[of \<theta>] by (simp add: power2_eq_square)
  have a: "arccos (cos \<theta>) = \<theta>"
    using assms by (rule arccos_cos)
  show ?thesis
    by (simp add: calculate3DAngle_def mk_landmark_def Let_def m Math_acos_def a)
qed

lemma bent_frame_squat:
  assumes "0 \<le> \<theta>" "\<theta> \<le> pi"
  shows "squat_leftKneeAngle (bent_frame \<theta> h) = Num (\<theta> * 180 / pi)"
    and "squat_rightKneeAngle (bent_frame \<theta> h) = Num (\<theta> * 180 / pi)"
    and "squat_avgKneeAngle (bent_frame \<theta> h) = Num (\<theta> * 180 / pi)"
    and "pushup_avgElbowAngle (bent_frame \<theta> h) = Num (\<theta> * 180 / pi)"
  by (simp_all add: squat_avgKneeAngle_def squat_leftKneeAngle_def squat_rightKneeAngle_def
      pushup_avgElbowAngle_def landmark_of_simps bent_frame_nth bent_angle[OF assms])

lemma bent_frame_hipHeight: "squat_hipHeight (bent_frame \<theta> h) = h"
  by (simp add: squat_hipHeight_def landmark_of_simps bent_frame_nth mk_landmark_def)

text \<open>150, 100, 130 and 90 degrees in radians.\<close>

lemma degrees:
  "0 \<le> 5 * pi / 6 \<and> 5 * pi / 6 \<le> pi \<and> (5 * pi / 6) * 180 / pi = 150"
  "0 \<le> 5 * pi / 9 \<and> 5 * pi / 9 \<le> pi \<and> (5 * pi / 9) * 180 / pi = 100"
  "0 \<le> 13 * pi / 18 \<and> 13 * pi / 18 \<le> pi \<and> (13 * pi / 18) * 180 / pi = 130"
  "0 \<le> pi / 2 \<and> pi / 2 \<le> pi \<and> (pi / 2) * 180 / pi = 90"
  using pi_gt_zero by simp_all

lemma bent_frame_degrees:
  "squat_avgKneeAngle (bent_frame (5 * pi / 6) h) = Num 150"
  "squat_avgKneeAngle (bent_frame (5 * pi / 9) h) = Num 100"
  "squat_avgKneeAngle (bent_frame (13 * pi / 18) h) = Num 130"
  "squat_avgKneeAngle (bent_frame (pi / 2) h) = Num 90"
  "pushup_avgElbowAngle (bent_frame (13 * pi / 18) h) = Num 130"
  "pushup_avgElbowAngle (bent_frame (pi / 2) h) = Num 90"
  "squat_leftKneeAngle (bent_frame (13 * pi / 18) h) = Num 130"
  "squat_rightKneeAngle (bent_frame (13 * pi / 18) h) = Num 130"
  using bent_frame_squat[of "5 * pi / 6" h] bent_frame_squat[of "5 * pi / 9" h]
    bent_frame_squat[of "13 * pi / 18" h] bent_frame_squat[of "pi / 2" h] degrees
  by simp_all

section \<open>The turnaround\<close>

text \<open>
  C1. Three consecutive frames with all landmarks visible, average knee angles of 150, 100
  and 100 degrees, and a hip height that rises from frame 1 to frame 2 and falls from
  frame 2 to frame 3, threaded through \<open>determineSquatPhase\<close> from the rest state
  (\<open>standing\<close>, no previous hip height). Frame 1 keeps \<open>standing\<close> and frame 2
  reports \<open>descending\<close>. On frame 3 the hip height is below the previous one, so the
  \<open>ascending\<close> branch is taken; the promotion to \<open>bottom\<close> that follows tests for a
  phase of \<open>descending\<close> and is skipped. Frame 3 reports \<open>ascending\<close>, never
  \<open>bottom\<close>.
\<close>

theorem squat_turnaround_reports_ascending:
  assumes vis: "all_visible f1 squat_phase_required" "all_visible f2 squat_phase_required"
      "all_visible f3 squat_phase_required"
    and ang: "squat_avgKneeAngle f1 = Num 150" "squat_avgKneeAngle f2 = Num 100"
      "squat_avgKneeAngle f3 = Num 100"
    and up: "squat_hipHeight f1 < squat_hipHeight f2"
    and down: "squat_hipHeight f3 < squat_hipHeight f2"
  shows "(let r1 = determineSquatPhase (Some f1) STANDING None;
              r2 = determineSquatPhase (Some f2) (phase r1) (tracked r1);
              r3 = determineSquatPhase (Some f3) (phase r2) (tracked r2)
          in phase r1 = STANDING \<and> phase r2 = DESCENDING \<and> phase r3 = ASCENDING \<and> phase r3 \<noteq> BOTTOM)"
proof -
  have r1: "determineSquatPhase (Some f1) STANDING None = \<lparr>phase = STANDING, tracked = Some (Num (squat_hipHeight f1))\<rparr>"
    unfolding determineSquatPhase_visible[OF vis(1)] by (simp add: Let_def ang phase_defs)
  have r2: "determineSquatPhase (Some f2) STANDING (Some (Num (squat_hipHeight f1)))
      = \<lparr>phase = DESCENDING, tracked = Some (Num (squat_hipHeight f2))\<rparr>"
    unfolding determineSquatPhase_visible[OF vis(2)] using up by (simp add: Let_def ang phase_defs)
  have r3: "determineSquatPhase (Some f3) DESCENDING (Some (Num (squat_hipHeight f2)))
      = \<lparr>phase = ASCENDING, tracked = Some (Num (squat_hipHeight f3))\<rparr>"
    unfolding determineSquatPhase_visible[OF vis(3)] using down by (simp add: Let_def ang phase_defs)
  show ?thesis
    by (simp add: Let_def r1 r2 r3) (simp add: phase_defs)
qed

text \<open>The scenario on three concrete frames.\<close>

theorem squat_turnaround_reports_ascending_witness:
  "all_visible (bent_frame (5 * pi / 6) 0.5) squat_phase_required
   \<and> all_visible (bent_frame (5 * pi / 9) 0.6) squat_phase_required
   \<and> all_visible (bent_frame (5 * pi / 9) 0.55) squat_phase_required
   \<and> squat_avgKneeAngle (bent_frame (5 * pi / 6) 0.5) = Num 150
   \<and> squat_avgKneeAngle (bent_frame (5 * pi / 9) 0.6) = Num 100
   \<and> squat_avgKneeAngle (bent_frame (5 * pi / 9) 0.55) = Num 100
   \<and> squat_hipHeight (bent_frame (5 * pi / 6) 0.5) < squat_hipHeight (bent_frame (5 * pi / 9) 0.6)
   \<and> squat_hipHeight (bent_frame (5 * pi / 9) 0.55) < squat_hipHeight (bent_frame (5 * pi / 9) 0.6)
   \<and> (let r1 = determineSquatPhase (Some (bent_frame (5 * pi / 6) 0.5)) STANDING None;
           r2 = determineSquatPhase (Some (bent_frame (5 * pi / 9) 0.6)) (phase r1) (tracked r1);
           r3 = determineSquatPhase (Some (bent_frame (5 * pi / 9) 0.55)) (phase r2) (tracked r2)
       in phase r1 = STANDING \<and> phase r2 = DESCENDING \<and> phase r3 = ASCENDING \<and> phase r3 \<noteq> BOTTOM)"
proof -
  note a1 = bent_frame_degrees(1) and a2 = bent_frame_degrees(2)
  have h12: "squat_hipHeight (bent_frame (5 * pi / 6) 0.5) < squat_hipHeight (bent_frame (5 * pi / 9) 0.6)"
    by (simp add: bent_frame_hipHeight)
  have h32: "squat_hipHeight (bent_frame (5 * pi / 9) 0.55) < squat_hipHeight (bent_frame (5 * pi / 9) 0.6)"
    by (simp add: bent_frame_hipHeight)
  show ?thesis
    using squat_turnaround_reports_ascending[OF bent_frame_visible(1) bent_frame_visible(1)
        bent_frame_visible(1) a1 a2 a2 h12 h32]
    by (simp only: bent_frame_visible a1 a2 h12 h32 simp_thms)
qed

section \<open>Skipped frames\<close>

lemma hidden_frame_nth:
  "at_index hidden_frame 5 = Some (mk_landmark 0 0 0 0.5)"
  "at_index hidden_frame 11 = Some (mk_landmark 0 0 0 0.5)"
  by (simp_all add: hidden_frame_def at_index_def Let_def nth_append)

lemma hidden_frame_low:
  "absent_or_low (landmark_of hidden_frame ''leftHip'')"
  "absent_or_low (landmark_of hidden_frame ''leftShoulder'')"
  by (simp_all add: landmark_of_simps hidden_frame_nth absent_or_low_def mk_landmark_def)

lemma determine_empty:
  "determineSquatPhase (Some []) prevPhase prev = \<lparr>phase = prevPhase, tracked = prev\<rparr>"
  "determinePushupPhase (Some []) prevPhase prev = \<lparr>phase = prevPhase, tracked = prev\<rparr>"
  by (simp_all add: determineSquatPhase_def determinePushupPhase_def getNamedLandmarks_empty)

text \<open>
  C4. When the frame is absent or empty, or one of the six landmarks the classifier
  requires (hips, knees, ankles for the squat; shoulders, elbows, wrists for the push-up)
  is absent or has a visibility of at most \<open>0.5\<close>, the classifier returns the previous
  phase and the previous metric unchanged.
\<close>

theorem classifier_skips_frame:
  "((landmarks = None \<or> landmarks = Some []
      \<or> (\<exists>ls. landmarks = Some ls
            \<and> list_ex (\<lambda>name. absent_or_low (landmark_of ls name)) squat_phase_required))
     \<longrightarrow> determineSquatPhase landmarks prevPhase prevMetric
           = \<lparr>phase = prevPhase, tracked = prevMetric\<rparr>)
   \<and> ((landmarks = None \<or> landmarks = Some []
      \<or> (\<exists>ls. landmarks = Some ls
            \<and> list_ex (\<lambda>name. absent_or_low (landmark_of ls name)) pushup_phase_required))
     \<longrightarrow> determinePushupPhase landmarks prevPhase prevMetric
           = \<lparr>phase = prevPhase, tracked = prevMetric\<rparr>)"
  by (auto simp: determine_None determine_empty some_absent_or_low_iff determineSquatPhase_skip
      determinePushupPhase_skip)

text \<open>A frame whose left hip and left shoulder have visibility exactly \<open>0.5\<close>.\<close>

theorem classifier_skips_frame_witness:
  "list_ex (\<lambda>name. absent_or_low (landmark_of hidden_frame name)) squat_phase_required
   \<and> determineSquatPhase (Some hidden_frame) DESCENDING (Some (Num 0.3))
       = \<lparr>phase = DESCENDING, tracked = Some (Num 0.3)\<rparr>
   \<and> list_ex (\<lambda>name. absent_or_low (landmark_of hidden_frame name)) pushup_phase_required
   \<and> determinePushupPhase (Some hidden_frame) DESCENDING (Some (Num 0.3))
       = \<lparr>phase = DESCENDING, tracked = Some (Num 0.3)\<rparr>"
proof -
  have s: "list_ex (\<lambda>name. absent_or_low (landmark_of hidden_frame name)) squat_phase_required"
    by (simp add: squat_phase_required_def hidden_frame_low)
  have p: "list_ex (\<lambda>name. absent_or_low (landmark_of hidden_frame name)) pushup_phase_required"
    by (simp add: pushup_phase_required_def hidden_frame_low)
  show ?thesis
    using classifier_skips_frame[of "Some hidden_frame" DESCENDING "Some (Num 0.3)"] s p
    by blast
qed

section \<open>When the promotion to bottom fires\<close>

text \<open>
  C10, as amended. On a visible frame whose average knee angle is below 110 degrees,
  with a previous phase of \<open>descending\<close>, \<open>determineSquatPhase\<close> returns
  \<open>bottom\<close> exactly when the previous hip height is falsy (\<open>null\<close>, \<open>0\<close> or
  \<open>NaN\<close>) and the hip height lies strictly between 0 and 1; in particular never when
  the previous hip height is a strictly positive number. On a visible frame whose average
  elbow angle is below 120 degrees, with a previous phase of \<open>descending\<close>,
  \<open>determinePushupPhase\<close> returns \<open>bottom\<close> exactly when the previous elbow angle is
  \<open>null\<close> and the average elbow angle is positive.
\<close>

theorem promotion_below_threshold:
  "(all_visible ls squat_phase_required \<and> js_lt (squat_avgKneeAngle ls) (Num 110) \<longrightarrow>
      (phase (determineSquatPhase (Some ls) DESCENDING prevHipHeight) = BOTTOM \<longleftrightarrow>
         (prevHipHeight = None \<or> prevHipHeight = Some (Num 0) \<or> prevHipHeight = Some NaN)
         \<and> 0 < squat_hipHeight ls \<and> squat_hipHeight ls < 1))
   \<and> (all_visible ms pushup_phase_required \<and> js_lt (pushup_avgElbowAngle ms) (Num 120) \<longrightarrow>
      (phase (determinePushupPhase (Some ms) DESCENDING prevElbowAngle) = BOTTOM \<longleftrightarrow>
         prevElbowAngle = None \<and> js_gt (pushup_avgElbowAngle ms) (Num 0)))"
proof (intro conjI impI; elim conjE)
  assume vis: "all_visible ls squat_phase_required"
    and lt: "js_lt (squat_avgKneeAngle ls) (Num 110)"
  from lt obtain a where a: "squat_avgKneeAngle ls = Num a" "a < 110"
    by (cases "squat_avgKneeAngle ls") auto
  show "phase (determineSquatPhase (Some ls) DESCENDING prevHipHeight) = BOTTOM \<longleftrightarrow>
         (prevHipHeight = None \<or> prevHipHeight = Some (Num 0) \<or> prevHipHeight = Some NaN)
         \<and> 0 < squat_hipHeight ls \<and> squat_hipHeight ls < 1"
  proof (cases prevHipHeight)
    case None
    then show ?thesis
      unfolding determineSquatPhase_visible[OF vis] using a
      by (simp add: Let_def phase_defs)
  next
    case (Some v)
    show ?thesis
    proof (cases v)
      case NaN
      then show ?thesis
        unfolding determineSquatPhase_visible[OF vis] using a Some
        by (simp add: Let_def phase_defs)
    next
      case (Num p)
      then show ?thesis
        unfolding determineSquatPhase_visible[OF vis] using a Some
        by (simp add: Let_def phase_defs)
    qed
  qed
next
  assume vis: "all_visible ms pushup_phase_required"
    and lt: "js_lt (pushup_avgElbowAngle ms) (Num 120)"
  from lt obtain a where a: "pushup_avgElbowAngle ms = Num a" "a < 120"
    by (cases "pushup_avgElbowAngle ms") auto
  show "phase (determinePushupPhase (Some ms) DESCENDING prevElbowAngle) = BOTTOM \<longleftrightarrow>
         prevElbowAngle = None \<and> js_gt (pushup_avgElbowAngle ms) (Num 0)"
  proof (cases prevElbowAngle)
    case None
    then show ?thesis
      unfolding determinePushupPhase_visible[OF vis] using a
      by (simp add: Let_def phase_defs)
  next
    case (Some v)
    show ?thesis
    proof (cases v)
      case NaN
      then show ?thesis
        unfolding determinePushupPhase_visible[OF vis] using a Some
        by (simp add: Let_def phase_defs)
    next
      case (Num p)
      then show ?thesis
        unfolding determinePushupPhase_visible[OF vis] using a Some
        by (simp add: Let_def phase_defs)
    qed
  qed
qed

text \<open>Both promotions firing on a first frame with a right angle at knees and elbows.\<close>

theorem promotion_below_threshold_witness:
  "all_visible (bent_frame (pi / 2) 0.5) squat_phase_required
   \<and> js_lt (squat_avgKneeAngle (bent_frame (pi / 2) 0.5)) (Num 110)
   \<and> phase (determineSquatPhase (Some (bent_frame (pi / 2) 0.5)) DESCENDING None) = BOTTOM
   \<and> all_visible (bent_frame (pi / 2) 0.5) pushup_phase_required
   \<and> js_lt (pushup_avgElbowAngle (bent_frame (pi / 2) 0.5)) (Num 120)
   \<and> phase (determinePushupPhase (Some (bent_frame (pi / 2) 0.5)) DESCENDING None) = BOTTOM"
proof -
  note a = bent_frame_degrees
  show ?thesis
    using promotion_below_threshold[of "bent_frame (pi / 2) 0.5" None "bent_frame (pi / 2) 0.5" None]
    by (simp add: bent_frame_visible a bent_frame_hipHeight)
qed

text \<open>
  C10, as stated, fails between the thresholds. An average knee angle of 130 degrees
  takes none of the three branches, so the previous phase \<open>descending\<close> is retained,
  and the promotion fires on a hip height of \<open>0.4\<close> below the strictly positive previous
  hip height \<open>0.5\<close>. Likewise an average elbow angle of 130 degrees above a previous
  elbow angle of 100 degrees, which is not \<open>null\<close>, gives \<open>bottom\<close> in the push-up.
\<close>

theorem promotion_in_retained_band:
  "squat_avgKneeAngle (bent_frame (13 * pi / 18) 0.4) = Num 130
   \<and> squat_hipHeight (bent_frame (13 * pi / 18) 0.4) = 0.4
   \<and> (0::real) < 0.5
   \<and> phase (determineSquatPhase (Some (bent_frame (13 * pi / 18) 0.4)) DESCENDING (Some (Num 0.5))) = BOTTOM
   \<and> pushup_avgElbowAngle (bent_frame (13 * pi / 18) 0.4) = Num 130
   \<and> phase (determinePushupPhase (Some (bent_frame (13 * pi / 18) 0.4)) DESCENDING (Some (Num 100))) = BOTTOM"
proof -
  note a = bent_frame_degrees
  have s: "phase (determineSquatPhase (Some (bent_frame (13 * pi / 18) 0.4)) DESCENDING (Some (Num 0.5))) = BOTTOM"
    unfolding determineSquatPhase_visible[OF bent_frame_visible(1)]
    by (simp add: Let_def a bent_frame_hipHeight phase_defs)
  have p: "phase (determinePushupPhase (Some (bent_frame (13 * pi / 18) 0.4)) DESCENDING (Some (Num 100))) = BOTTOM"
    unfolding determinePushupPhase_visible[OF bent_frame_visible(2)]
    by (simp add: Let_def a phase_defs)
  show ?thesis
    using a s p by (simp add: bent_frame_hipHeight)
qed

text \<open>An instance of C2 where the returned phase is \<open>bottom\<close> and is new.\<close>

theorem bottom_only_after_descending_witness:
  "phase (determineSquatPhase (Some (bent_frame (pi / 2) 0.25)) DESCENDING None) = BOTTOM
   \<and> BOTTOM \<noteq> DESCENDING
   \<and> phase (determinePushupPhase (Some (bent_frame (pi / 2) 0.25)) DESCENDING None) = BOTTOM"
proof -
  note a = bent_frame_degrees
  have s: "phase (determineSquatPhase (Some (bent_frame (pi / 2) 0.25)) DESCENDING None) = BOTTOM"
    unfolding determineSquatPhase_visible[OF bent_frame_visible(1)]
    by (simp add: Let_def a bent_frame_hipHeight phase_defs)
  have p: "phase (determinePushupPhase (Some (bent_frame (pi / 2) 0.25)) DESCENDING None) = BOTTOM"
    unfolding determinePushupPhase_visible[OF bent_frame_visible(2)]
    by (simp add: Let_def a phase_defs)
  show ?thesis
    using bottom_only_after_descending[of "Some (bent_frame (pi / 2) 0.25)" DESCENDING None None] s p
    by (simp add: phase_defs)
qed

section \<open>The form evaluators\<close>

lemma all_visible_squat_form:
  "all_visible ls squat_form_required \<longleftrightarrow>
     \<not> list_ex (\<lambda>landmark. \<not> isPointVisible landmark CONFIDENCE_THRESHOLD)
         [landmark_of ls ''leftShoulder'', landmark_of ls ''rightShoulder'',
          landmark_of ls ''leftHip'', landmark_of ls ''rightHip'',
          landmark_of ls ''leftKnee'', landmark_of ls ''rightKnee'',
          landmark_of ls ''leftAnkle'', landmark_of ls ''rightAnkle'']"
  by (auto simp: all_visible_def squat_form_required_def CONFIDENCE_THRESHOLD_def)

lemma all_visible_pushup_form:
  "all_visible ls pushup_form_required \<longleftrightarrow>
     \<not> list_ex (\<lambda>landmark. \<not> isPointVisible landmark CONFIDENCE_THRESHOLD)
         [landmark_of ls ''leftShoulder'', landmark_of ls ''rightShoulder'',
          landmark_of ls ''leftElbow'', landmark_of ls ''rightElbow'',
          landmark_of ls ''leftWrist'', landmark_of ls ''rightWrist'',
          landmark_of ls ''leftHip'', landmark_of ls ''rightHip'']"
  by (auto simp: all_visible_def pushup_form_required_def CONFIDENCE_THRESHOLD_def)

text \<open>
  The face landmarks that \<open>evaluatePushupForm\<close> reads without checking them are present
  whenever its required landmarks are visible.
\<close>

lemma face_present:
  assumes "all_visible ls pushup_form_required"
  shows "landmark_of ls ''nose'' \<noteq> None \<and> landmark_of ls ''leftEye'' \<noteq> None
         \<and> landmark_of ls ''rightEye'' \<noteq> None"
proof -
  have "isPointVisible (at_index ls 12) 0.5"
    using assms by (simp add: all_visible_def pushup_form_required_def landmark_of_simps)
  then have "12 < length ls"
    by (auto simp: isPointVisible_def at_index_def split: if_splits)
  then show ?thesis
    by (auto simp: landmark_of_simps at_index_def)
qed

lemma evaluateSquatForm_skip:
  assumes "ls \<noteq> []" "\<not> all_visible ls squat_form_required"
  shows "evaluateSquatForm (Some ls) phase0
         = \<lparr>isCorrect = False, issues = [''Some key landmarks not visible''], angles = None\<rparr>"
  using assms(2)[unfolded all_visible_squat_form]
  unfolding evaluateSquatForm_def getNamedLandmarks_Some[OF assms(1)]
  by (simp del: list_ex_Cons_iff list_ex_Nil_iff)

lemma evaluatePushupForm_skip:
  assumes "ls \<noteq> []" "\<not> all_visible ls pushup_form_required"
  shows "evaluatePushupForm (Some ls) phase0
         = \<lparr>isCorrect = False, issues = [''Some key landmarks not visible''], angles = None\<rparr>"
  using assms(2)[unfolded all_visible_pushup_form]
  unfolding evaluatePushupForm_def getNamedLandmarks_Some[OF assms(1)]
  by (simp del: list_ex_Cons_iff list_ex_Nil_iff)

lemma evaluate_no_landmarks:
  "evaluateSquatForm None phase0 = \<lparr>isCorrect = False, issues = [''No landmarks detected''], angles = None\<rparr>"
  "evaluateSquatForm (Some []) phase0 = \<lparr>isCorrect = False, issues = [''No landmarks detected''], angles = None\<rparr>"
  "evaluatePushupForm None phase0 = \<lparr>isCorrect = False, issues = [''No landmarks detected''], angles = None\<rparr>"
  "evaluatePushupForm (Some []) phase0 = \<lparr>isCorrect = False, issues = [''No landmarks detected''], angles = None\<rparr>"
  by (simp_all add: evaluateSquatForm_def evaluatePushupForm_def getNamedLandmarks_empty)

lemma isCorrect_iff_squat:
  "isCorrect (evaluateSquatForm landmarks phase0) \<longleftrightarrow> issues (evaluateSquatForm landmarks phase0) = []"
proof (cases "getNamedLandmarks landmarks")
  case None
  then show ?thesis by (simp add: evaluateSquatForm_def)
next
  case (Some named)
  then show ?thesis
    by (simp add: evaluateSquatForm_def Let_def del: list_ex_Cons_iff list_ex_Nil_iff)
qed

lemma isCorrect_iff_pushup:
  "isCorrect (evaluatePushupForm landmarks phase0) \<longleftrightarrow> issues (evaluatePushupForm landmarks phase0) = []"
proof (cases "getNamedLandmarks landmarks")
  case None
  then show ?thesis by (simp add: evaluatePushupForm_def)
next
  case (Some named)
  then show ?thesis
    by (simp add: evaluatePushupForm_def Let_def del: list_ex_Cons_iff list_ex_Nil_iff)
qed

lemma in_push_if: "x \<in> set (push_if cond msg xs) \<longleftrightarrow> x \<in> set xs \<or> (cond \<and> x = msg)"
  by (auto simp: push_if_def)

lemma never_pike: "\<not> calculateAngle a b c < - MAX_BACK_PIKE"
  using calculateAngle_bounds[of a b c] by (simp add: MAX_BACK_PIKE_def)

text \<open>
  C9. For every frame and every phase, \<open>evaluatePushupForm\<close> never produces the issue
  \<open>Hips too high (piking)\<close>: the back angle comes from \<open>calculateAngle\<close> and is
  never negative, while the piking branch asks for a back angle below \<open>-15\<close>.
\<close>

theorem pushup_never_reports_piking:
  "''Hips too high (piking)'' \<notin> set (issues (evaluatePushupForm landmarks phase0))"
proof (cases "getNamedLandmarks landmarks")
  case None
  then show ?thesis by (simp add: evaluatePushupForm_def)
next
  case (Some named)
  then show ?thesis
    by (simp add: evaluatePushupForm_def Let_def in_push_if never_pike del: list_ex_Cons_iff list_ex_Nil_iff)
qed

text \<open>
  C3. For a non-empty frame and any phase, if a landmark the evaluator requires
  (shoulders, hips, knees, ankles for the squat; shoulders, elbows, wrists, hips for the
  push-up) is absent or has a visibility of at most \<open>0.5\<close>, the evaluator returns
  exactly \<open>{isCorrect: false, issues: ["Some key landmarks not visible"]}\<close>, with no
  \<open>angles\<close> field.
\<close>

theorem evaluator_requires_visible_landmarks:
  "(ls \<noteq> [] \<and> list_ex (\<lambda>name. absent_or_low (landmark_of ls name)) squat_form_required
      \<longrightarrow> evaluateSquatForm (Some ls) phase0
            = \<lparr>isCorrect = False, issues = [''Some key landmarks not visible''], angles = None\<rparr>)
   \<and> (ls \<noteq> [] \<and> list_ex (\<lambda>name. absent_or_low (landmark_of ls name)) pushup_form_required
      \<longrightarrow> evaluatePushupForm (Some ls) phase0
            = \<lparr>isCorrect = False, issues = [''Some key landmarks not visible''], angles = None\<rparr>)"
  by (simp add: some_absent_or_low_iff evaluateSquatForm_skip evaluatePushupForm_skip)

theorem evaluator_requires_visible_landmarks_witness:
  "hidden_frame \<noteq> []
   \<and> list_ex (\<lambda>name. absent_or_low (landmark_of hidden_frame name)) squat_form_required
   \<and> evaluateSquatForm (Some hidden_frame) BOTTOM
       = \<lparr>isCorrect = False, issues = [''Some key landmarks not visible''], angles = None\<rparr>
   \<and> list_ex (\<lambda>name. absent_or_low (landmark_of hidden_frame name)) pushup_form_required
   \<and> evaluatePushupForm (Some hidden_frame) BOTTOM
       = \<lparr>isCorrect = False, issues = [''Some key landmarks not visible''], angles = None\<rparr>"
proof -
  have n: "hidden_frame \<noteq> []"
    by (simp add: hidden_frame_def Let_def)
  have s: "list_ex (\<lambda>name. absent_or_low (landmark_of hidden_frame name)) squat_form_required"
    by (simp add: squat_form_required_def hidden_frame_low)
  have p: "list_ex (\<lambda>name. absent_or_low (landmark_of hidden_frame name)) pushup_form_required"
    by (simp add: pushup_form_required_def hidden_frame_low)
  show ?thesis
    using evaluator_requires_visible_landmarks[of hidden_frame BOTTOM] n s p by blast
qed

text \<open>
  C6. For every frame and every phase, the short-circuit results included, the result of
  \<open>evaluateSquatForm\<close> and of \<open>evaluatePushupForm\<close> has \<open>isCorrect\<close> true exactly
  when its list of issues is empty.
\<close>

theorem isCorrect_iff_no_issues:
  "(isCorrect (evaluateSquatForm landmarks phase0) \<longleftrightarrow> issues (evaluateSquatForm landmarks phase0) = [])
   \<and> (isCorrect (evaluatePushupForm landmarks phase0) \<longleftrightarrow> issues (evaluatePushupForm landmarks phase0) = [])"
  using isCorrect_iff_squat isCorrect_iff_pushup by simp

text \<open>
  C7. On a frame whose required landmarks are all visible, \<open>evaluateSquatForm\<close> at
  phase \<open>bottom\<close> lists \<open>Knees not bent enough\<close> exactly when the left or the right
  knee angle exceeds 100 degrees; with a left or right knee angle of 130 degrees the
  issue is listed and \<open>isCorrect\<close> is false. The knee angles are the ones the result
  reports under \<open>leftKnee\<close> and \<open>rightKnee\<close>.
\<close>

theorem knees_not_bent_enough_at_bottom:
  assumes "all_visible ls squat_form_required"
  shows "(''Knees not bent enough'' \<in> set (issues (evaluateSquatForm (Some ls) BOTTOM))
            \<longleftrightarrow> js_gt (squat_leftKneeAngle ls) (Num 100) \<or> js_gt (squat_rightKneeAngle ls) (Num 100))
         \<and> (squat_leftKneeAngle ls = Num 130 \<or> squat_rightKneeAngle ls = Num 130
            \<longrightarrow> ''Knees not bent enough'' \<in> set (issues (evaluateSquatForm (Some ls) BOTTOM))
                \<and> \<not> isCorrect (evaluateSquatForm (Some ls) BOTTOM))
         \<and> map_of (the (angles (evaluateSquatForm (Some ls) BOTTOM))) ''leftKnee''
             = Some (squat_leftKneeAngle ls)
         \<and> map_of (the (angles (evaluateSquatForm (Some ls) BOTTOM))) ''rightKnee''
             = Some (squat_rightKneeAngle ls)"
proof -
  have ne: "ls \<noteq> []"
    using assms unfolding squat_form_required_def by (rule all_visible_nonempty)
  have mem: "''Knees not bent enough'' \<in> set (issues (evaluateSquatForm (Some ls) BOTTOM))
            \<longleftrightarrow> js_gt (squat_leftKneeAngle ls) (Num 100) \<or> js_gt (squat_rightKneeAngle ls) (Num 100)"
    using assms[unfolded all_visible_squat_form]
    unfolding evaluateSquatForm_def getNamedLandmarks_Some[OF ne]
    by (simp add: Let_def in_push_if squat_leftKneeAngle_def squat_rightKneeAngle_def MAX_KNEE_ANGLE_def
        del: list_ex_Cons_iff list_ex_Nil_iff)
  have ang: "map_of (the (angles (evaluateSquatForm (Some ls) BOTTOM))) ''leftKnee''
               = Some (squat_leftKneeAngle ls)
             \<and> map_of (the (angles (evaluateSquatForm (Some ls) BOTTOM))) ''rightKnee''
               = Some (squat_rightKneeAngle ls)"
    using assms[unfolded all_visible_squat_form]
    unfolding evaluateSquatForm_def getNamedLandmarks_Some[OF ne]
    by (simp add: Let_def squat_leftKneeAngle_def squat_rightKneeAngle_def
        del: list_ex_Cons_iff list_ex_Nil_iff)
  have inc: "''Knees not bent enough'' \<in> set (issues (evaluateSquatForm (Some ls) BOTTOM))
     \<Longrightarrow> \<not> isCorrect (evaluateSquatForm (Some ls) BOTTOM)"
    using isCorrect_iff_squat[of "Some ls" BOTTOM] by auto
  show ?thesis
    using mem inc ang by auto
qed

text \<open>A frame with both knees at 130 degrees.\<close>

theorem knees_not_bent_enough_at_bottom_witness:
  "all_visible (bent_frame (13 * pi / 18) 0.5) squat_form_required
   \<and> squat_leftKneeAngle (bent_frame (13 * pi / 18) 0.5) = Num 130
   \<and> ''Knees not bent enough'' \<in> set (issues (evaluateSquatForm (Some (bent_frame (13 * pi / 18) 0.5)) BOTTOM))
   \<and> \<not> isCorrect (evaluateSquatForm (Some (bent_frame (13 * pi / 18) 0.5)) BOTTOM)"
  using knees_not_bent_enough_at_bottom[OF bent_frame_visible(3), of "13 * pi / 18" "0.5"]
    bent_frame_visible(3)[of "13 * pi / 18" "0.5"] bent_frame_degrees(7)[of "0.5"]
  by blast

end
